theory Spec2Isabelle
  imports Complex_Main
begin

section \<open>Data model\<close>

text \<open>
  The two agents work on pandas data. The embedding keeps the shape of that data:

  \<^item> a float is a real number or NaN: \<open>fl = real option\<close>, with \<open>None\<close> for NaN.
    Finite floats are taken as exact reals (no rounding error, no overflow); the
    infinities are not represented.
  \<^item> a \<open>DataFrame\<close> of prices is its date index and its columns in order, each
    column a ticker with one cell per date;
  \<^item> a \<open>Series\<close> or a dict from tickers to floats is an association list in
    insertion order. A Python dict and the index of a price table have unique
    keys; the theorems that need it assume \<open>distinct\<close> keys.
\<close>

type_synonym ticker = string
type_synonym fl = "real option"

record data_frame =
  index :: "nat list"
  columns :: "(ticker \<times> fl list) list"

text \<open>\<open>DataFrame.empty\<close>: some axis has length 0.\<close>

definition empty :: "data_frame \<Rightarrow> bool" where
  "empty df \<longleftrightarrow> index df = [] \<or> columns df = []"

text \<open>Every column has one cell per date (a \<open>DataFrame\<close> is always rectangular).\<close>

definition aligned :: "data_frame \<Rightarrow> bool" where
  "aligned df \<longleftrightarrow> list_all (\<lambda>tc. length (snd tc) = length (index df)) (columns df)"

datatype py_error = ZeroDivisionError | IndexError

record holding =
  ticker :: ticker
  weight :: real
  price :: fl
  shares :: int
  allocated_amt :: real

record portfolio =
  budget :: real
  allocated :: real
  remaining :: real
  holdings :: "holding list"
  error :: "string option"

section \<open>Python and pandas primitives\<close>

text \<open>\<open>xs[:k]\<close> and \<open>xs[-k:]\<close> for any integer \<open>k\<close>, as Python slices them.\<close>

definition slice_to :: "'a list \<Rightarrow> int \<Rightarrow> 'a list" where
  "slice_to xs k = (if 0 \<le> k then take (nat k) xs else take (length xs - nat (- k)) xs)"

definition slice_last :: "'a list \<Rightarrow> int \<Rightarrow> 'a list" where
  "slice_last xs k = (if 0 < k then drop (length xs - nat k) xs else drop (nat (- k)) xs)"

text \<open>
  \<open>round(x, nd)\<close> on a float rounds to the nearest multiple of \<open>10 ^ -nd\<close>, ties to
  the even one.
\<close>

definition round_half_even :: "real \<Rightarrow> int" where
  "round_half_even y =
     (let f = \<lfloor>y\<rfloor>; d = y - of_int f
      in if d < 1 / 2 then f else if 1 / 2 < d then f + 1 else if even f then f else f + 1)"

definition py_round :: "real \<Rightarrow> nat \<Rightarrow> real" where
  "py_round x nd = of_int (round_half_even (x * 10 ^ nd)) / 10 ^ nd"

text \<open>Python's \<open>/\<close> and \<open>//\<close> on floats raise on a zero divisor.\<close>

definition py_truediv :: "real \<Rightarrow> real \<Rightarrow> py_error + real" where
  "py_truediv a b = (if b = 0 then Inl ZeroDivisionError else Inr (a / b))"

definition py_floordiv :: "real \<Rightarrow> real \<Rightarrow> py_error + int" where
  "py_floordiv a b = (if b = 0 then Inl ZeroDivisionError else Inr \<lfloor>a / b\<rfloor>)"

text \<open>
  \<open>pct_change\<close> of one column: missing cells are padded forward, then every cell
  is divided by its predecessor, minus 1; the first cell has no predecessor and is
  NaN. A quotient with a zero divisor is given as NaN here (the theorems on
  volatility never depend on its value).
\<close>

fun ffill :: "fl \<Rightarrow> fl list \<Rightarrow> fl list" where
  "ffill prev [] = []"
| "ffill prev (None # xs) = prev # ffill prev xs"
| "ffill prev (Some v # xs) = Some v # ffill (Some v) xs"

fun pct :: "fl \<Rightarrow> fl \<Rightarrow> fl" where
  "pct (Some p) (Some q) = (if p = 0 then None else Some (q / p - 1))"
| "pct _ _ = None"

fun pct_pairs :: "fl list \<Rightarrow> fl list" where
  "pct_pairs (a # b # xs) = pct a b # pct_pairs (b # xs)"
| "pct_pairs _ = []"

definition pct_change :: "fl list \<Rightarrow> fl list" where
  "pct_change xs = (case xs of [] \<Rightarrow> [] | _ # _ \<Rightarrow> None # pct_pairs (ffill None xs))"

text \<open>\<open>DataFrame.dropna()\<close>: the rows in which no column is NaN.\<close>

definition present :: "fl list \<Rightarrow> nat \<Rightarrow> bool" where
  "present c i \<longleftrightarrow> i < length c \<and> c ! i \<noteq> None"

definition kept_rows :: "nat \<Rightarrow> fl list list \<Rightarrow> nat list" where
  "kept_rows n cs = filter (\<lambda>i. list_all (\<lambda>c. present c i) cs) [0..<n]"

definition cells :: "fl list \<Rightarrow> nat list \<Rightarrow> real list" where
  "cells c rows = map (\<lambda>i. case c ! i of Some v \<Rightarrow> v | None \<Rightarrow> 0) rows"

text \<open>\<open>Series.std()\<close>: the sample standard deviation, NaN on fewer than 2 values.\<close>

definition mean :: "real list \<Rightarrow> real" where
  "mean xs = sum_list xs / real (length xs)"

definition std :: "real list \<Rightarrow> fl" where
  "std xs =
     (if length xs < 2 then None
      else Some (sqrt (sum_list (map (\<lambda>x. (x - mean xs)\<^sup>2) xs) / real (length xs - 1))))"

text \<open>
  \<open>prices_df.pct_change().dropna().std() * np.sqrt(252)\<close>, a Series over the
  columns of the table.
\<close>

definition annualized_vol :: "data_frame \<Rightarrow> (ticker \<times> fl) list" where
  "annualized_vol df =
     (let rets = map (\<lambda>tc. pct_change (snd tc)) (columns df);
          rows = kept_rows (length (index df)) rets
      in map (\<lambda>tc. (fst tc,
                case std (cells (pct_change (snd tc)) rows) of
                  None \<Rightarrow> None
                | Some s \<Rightarrow> Some (s * sqrt 252)))
           (columns df))"

section \<open>PortfolioGeneratorAgent\<close>

text \<open>
  \<open>_sanitize_tickers\<close>: the labels of the volatility series that are columns of
  the price table, in the order of the series. Tickers are strings, so \<open>str\<close> is the
  identity on them.
\<close>

definition sanitize_tickers :: "data_frame \<Rightarrow> (ticker \<times> fl) list \<Rightarrow> ticker list" where
  "sanitize_tickers prices_df vol_series =
     (let prices_cols = map fst (columns prices_df);
          vol_index = map fst vol_series
      in filter (\<lambda>t. t \<in> set prices_cols) vol_index)"

text \<open>
  Lines 45 to 53. Only the entry \<open>'volatility'\<close> of the risk report is read: it
  is the argument \<open>rv\<close>, and \<open>None\<close> stands for a report without that key. An
  empty series is replaced by the volatility computed from the prices; that
  computation raises nothing, so the handler of line 51 has no branch here.
\<close>

definition vol_source :: "data_frame \<Rightarrow> (ticker \<times> fl) list option \<Rightarrow> (ticker \<times> fl) list" where
  "vol_source prices_df rv =
     (let vol = (case rv of None \<Rightarrow> [] | Some d \<Rightarrow> d)
      in if vol = [] then annualized_vol prices_df else vol)"

text \<open>Lines 56 to 62: the tickers that are ranked.\<close>

definition available :: "data_frame \<Rightarrow> (ticker \<times> fl) list \<Rightarrow> ticker list" where
  "available prices_df vol =
     (let av = sanitize_tickers prices_df vol
      in if av = [] then map fst (columns prices_df) else av)"

text \<open>\<open>vol.reindex(available).fillna(0.0)\<close>: a missing label and a NaN both give 0.\<close>

definition reindex_fillna :: "(ticker \<times> fl) list \<Rightarrow> ticker list \<Rightarrow> (ticker \<times> real) list" where
  "reindex_fillna vol labels =
     map (\<lambda>t. (t, case map_of vol t of Some (Some v) \<Rightarrow> v | _ \<Rightarrow> 0)) labels"

text \<open>
  Line 65, \<open>sort_values(ascending=True)\<close>. The order among equal volatilities is
  that of the series (a stable sort); the theorems below hold for any order among
  ties unless they say otherwise.
\<close>

definition ranked :: "data_frame \<Rightarrow> (ticker \<times> fl) list option \<Rightarrow> (ticker \<times> real) list" where
  "ranked prices_df rv =
     (let vol = vol_source prices_df rv
      in sort_key snd (reindex_fillna vol (available prices_df vol)))"

text \<open>\<open>ranked.loc[chosen].values\<close>: the values at each label, in the order of the labels.\<close>

definition loc :: "(ticker \<times> real) list \<Rightarrow> ticker list \<Rightarrow> real list" where
  "loc s labels = concat (map (\<lambda>t. map snd (filter (\<lambda>kv. fst kv = t) s)) labels)"

text \<open>Lines 78 to 84, \<open>risk_level == 'low'\<close>.\<close>

definition select_low :: "(ticker \<times> real) list \<Rightarrow> int \<Rightarrow> py_error + (ticker list \<times> real list)" where
  "select_low rk n =
     (let chosen = map fst (slice_to rk n)
      in if n = 1 then Inr (chosen, [1])
         else (case py_truediv (2 / 10) (of_int (n - 1)) of
                 Inl e \<Rightarrow> Inl e
               | Inr d \<Rightarrow> Inr (chosen, [8 / 10] @ replicate (nat (n - 1)) d)))"

text \<open>
  Lines 85 to 96, \<open>risk_level == 'high'\<close>. \<open>epsilon_vol\<close> is line 91 on one
  element, \<open>np.where(vols <= 0, 1e-6, vols)\<close>; \<open>high_raw\<close> is the vector tested at
  line 95.
\<close>

definition epsilon_vol :: "real \<Rightarrow> real" where
  "epsilon_vol v = (if v \<le> 0 then 1 / 1000000 else v)"

definition high_vols :: "(ticker \<times> real) list \<Rightarrow> ticker list \<Rightarrow> real list" where
  "high_vols rk chosen = map epsilon_vol (loc rk chosen)"

definition high_raw :: "(ticker \<times> real) list \<Rightarrow> ticker list \<Rightarrow> real list" where
  "high_raw rk chosen = (let vols = high_vols rk chosen in map (\<lambda>v. v / sum_list vols) vols)"

definition select_high :: "(ticker \<times> real) list \<Rightarrow> int \<Rightarrow> ticker list \<times> real list" where
  "select_high rk n =
     (let chosen = map fst (slice_last rk n);
          weights = high_raw rk chosen
      in if sum_list weights = 0
         then (chosen, replicate (length chosen) (1 / real (length chosen)))
         else (chosen, weights))"

text \<open>Lines 97 to 106, any other \<open>risk_level\<close>.\<close>

definition select_moderate :: "(ticker \<times> real) list \<Rightarrow> int \<Rightarrow> ticker list \<times> real list" where
  "select_moderate rk n =
     (let low_count = n div 2;
          high_count = n - low_count;
          low = map fst (slice_to rk low_count);
          high = (if 0 < high_count then map fst (slice_last rk high_count) else []);
          chosen = low @ high;
          chosen = (if length chosen = 0 then map fst (slice_to rk n) else chosen)
      in (chosen, replicate (length chosen) (1 / real (length chosen))))"

definition select :: "string \<Rightarrow> (ticker \<times> real) list \<Rightarrow> int \<Rightarrow> py_error + (ticker list \<times> real list)" where
  "select risk_level rk n =
     (if risk_level = ''low'' then select_low rk n
      else if risk_level = ''high'' then Inr (select_high rk n)
      else Inr (select_moderate rk n))"

text \<open>Lines 109 to 113.\<close>

definition normalize :: "real list \<Rightarrow> real list" where
  "normalize weights =
     (if sum_list weights = 0 then map (\<lambda>_. 1 / real (length weights)) weights
      else map (\<lambda>w. w / sum_list weights) weights)"

text \<open>
  Line 116, \<open>prices_df.iloc[-1].to_dict()\<close>: the last cell of every column; a
  table without rows has no last row.
\<close>

definition last_cell :: "fl list \<Rightarrow> fl" where
  "last_cell c = (if c = [] then None else last c)"

definition last_prices :: "data_frame \<Rightarrow> py_error + (ticker \<rightharpoonup> fl)" where
  "last_prices prices_df =
     (if index prices_df = [] then Inl IndexError
      else Inr (map_of (rev (map (\<lambda>tc. (fst tc, last_cell (snd tc))) (columns prices_df)))))"

text \<open>
  Lines 121 to 135, the body of the loop for one ticker and its weight. The test of
  line 122, \<open>np.isnan(price) or price <= 0\<close>, is the first two branches.
\<close>

definition lookup_price :: "(ticker \<rightharpoonup> fl) \<Rightarrow> ticker \<Rightarrow> fl" where
  "lookup_price lp t = (case lp t of None \<Rightarrow> None | Some p \<Rightarrow> p)"

definition make_holding :: "real \<Rightarrow> (ticker \<rightharpoonup> fl) \<Rightarrow> ticker \<Rightarrow> real \<Rightarrow> py_error + holding" where
  "make_holding b lp t w =
     (case lookup_price lp t of
        None \<Rightarrow> Inr \<lparr>ticker = t, weight = py_round w 6, price = None, shares = 0, allocated_amt = 0\<rparr>
      | Some p \<Rightarrow>
          if p \<le> 0
          then Inr \<lparr>ticker = t, weight = py_round w 6, price = Some p, shares = 0, allocated_amt = 0\<rparr>
          else (case py_floordiv (b * w) p of
                  Inl e \<Rightarrow> Inl e
                | Inr s \<Rightarrow> Inr \<lparr>ticker = t, weight = py_round w 6, price = Some p, shares = s,
                                allocated_amt = py_round (of_int s * p) 2\<rparr>))"

text \<open>
  Lines 118 to 136, the loop: the state is the list built so far and \<open>remaining\<close>;
  \<open>b\<close> is the budget.
\<close>

fun allocate :: "real \<Rightarrow> (ticker \<rightharpoonup> fl) \<Rightarrow> (ticker \<times> real) list \<Rightarrow> holding list \<times> real
                 \<Rightarrow> py_error + (holding list \<times> real)" where
  "allocate b lp [] st = Inr st"
| "allocate b lp ((t, w) # tws) (allocation, rem) =
     (case make_holding b lp t w of
        Inl e \<Rightarrow> Inl e
      | Inr h \<Rightarrow> allocate b lp tws (allocation @ [h], rem - allocated_amt h))"

text \<open>The weights that reach the loop: lines 78 to 113.\<close>

definition chosen_weights :: "string \<Rightarrow> (ticker \<times> real) list \<Rightarrow> int \<Rightarrow> py_error + (ticker \<times> real) list" where
  "chosen_weights risk_level rk n =
     (case select risk_level rk n of
        Inl e \<Rightarrow> Inl e
      | Inr (chosen, weights) \<Rightarrow> Inr (zip chosen (normalize weights)))"

definition no_data :: "real \<Rightarrow> string \<Rightarrow> portfolio" where
  "no_data b msg =
     \<lparr>budget = b, allocated = 0, remaining = py_round b 2, holdings = [], error = Some msg\<rparr>"

definition generate_portfolio ::
  "int \<Rightarrow> real \<Rightarrow> string \<Rightarrow> data_frame option \<Rightarrow> (ticker \<times> fl) list option \<Rightarrow> py_error + portfolio" where
  "generate_portfolio top_n b risk_level prices rv =
     (case prices of
        None \<Rightarrow> Inr (no_data b ''No price data available'')
      | Some prices_df \<Rightarrow>
          if empty prices_df then Inr (no_data b ''No price data available'')
          else
            let rk = ranked prices_df rv;
                n = min top_n (int (length rk))
            in if n = 0 then Inr (no_data b ''No tickers available after filtering'')
               else (case chosen_weights risk_level rk n of
                       Inl e \<Rightarrow> Inl e
                     | Inr tws \<Rightarrow>
                         (case last_prices prices_df of
                            Inl e \<Rightarrow> Inl e
                          | Inr lp \<Rightarrow>
                              (case allocate b lp tws ([], b) of
                                 Inl e \<Rightarrow> Inl e
                               | Inr (allocation, rem) \<Rightarrow>
                                   Inr \<lparr>budget = py_round b 2,
                                        allocated = py_round (b - rem) 2,
                                        remaining = py_round rem 2,
                                        holdings = allocation,
                                        error = None\<rparr>))))"

section \<open>RiskAssessmentAgent\<close>

record summary =
  avg_volatility :: fl
  max_volatility :: fl
  min_volatility :: fl

record risk_report =
  volatility :: "(ticker \<times> real) list"
  drawdown :: "(ticker \<times> fl) list"
  risk_score :: "(ticker \<times> real) list"
  summary :: summary

text \<open>\<open>Series.dropna()\<close> and \<open>Series.cummax()\<close> on one column.\<close>

definition dropna :: "fl list \<Rightarrow> real list" where
  "dropna c = concat (map (\<lambda>x. case x of None \<Rightarrow> [] | Some v \<Rightarrow> [v]) c)"

fun cummax_from :: "real \<Rightarrow> real list \<Rightarrow> real list" where
  "cummax_from m [] = []"
| "cummax_from m (x # xs) = max m x # cummax_from (max m x) xs"

definition cummax :: "real list \<Rightarrow> real list" where
  "cummax xs = (case xs of [] \<Rightarrow> [] | x # _ \<Rightarrow> cummax_from x xs)"

text \<open>
  Elementwise float division of two series. A zero divisor gives NaN here: that is
  what IEEE gives for 0/0; for a nonzero dividend it gives an infinity, which this
  embedding does not represent, and no theorem below evaluates such a quotient.
\<close>

definition fdiv :: "real \<Rightarrow> real \<Rightarrow> fl" where
  "fdiv a b = (if b = 0 then None else Some (a / b))"

text \<open>\<open>Series.min()\<close>, \<open>max()\<close> and \<open>mean()\<close> skip NaN and are NaN when nothing is left.\<close>

definition nanmin :: "fl list \<Rightarrow> fl" where
  "nanmin xs = (case dropna xs of [] \<Rightarrow> None | v # vs \<Rightarrow> Some (fold min vs v))"

definition nanmax :: "fl list \<Rightarrow> fl" where
  "nanmax xs = (case dropna xs of [] \<Rightarrow> None | v # vs \<Rightarrow> Some (fold max vs v))"

definition nanmean :: "fl list \<Rightarrow> fl" where
  "nanmean xs = (case dropna xs of [] \<Rightarrow> None | v # vs \<Rightarrow> Some (mean (v # vs)))"

text \<open>Lines 9 to 15: the maximum drawdown of one column.\<close>

definition max_drawdown :: "fl list \<Rightarrow> fl" where
  "max_drawdown c =
     (let series = dropna c
      in if length series = 0 then Some 0
         else let roll_max = cummax series
              in nanmin (map (\<lambda>sm. fdiv (fst sm - snd sm) (snd sm)) (zip series roll_max)))"

text \<open>
  \<open>Series.rank(ascending=True)\<close> with the default method \<open>average\<close>: equal values
  share the mean of the positions they occupy in ascending order.
\<close>

definition rank :: "real list \<Rightarrow> real \<Rightarrow> real" where
  "rank vs v =
     real (length (filter (\<lambda>u. u < v) vs)) + (real (length (filter (\<lambda>u. u = v) vs)) + 1) / 2"

definition fillna0 :: "fl \<Rightarrow> real" where
  "fillna0 x = (case x of None \<Rightarrow> 0 | Some v \<Rightarrow> v)"

definition assess_universe :: "data_frame \<Rightarrow> risk_report" where
  "assess_universe prices_df =
     (let drawdowns = map (\<lambda>tc. (fst tc, max_drawdown (snd tc))) (columns prices_df);
          vol = map (\<lambda>tv. (fst tv, fillna0 (snd tv))) (annualized_vol prices_df);
          vs = map snd vol;
          risk_score = map (\<lambda>tv. (fst tv, rank vs (snd tv) / real (length vol))) vol
      in \<lparr>volatility = vol,
          drawdown = drawdowns,
          risk_score = risk_score,
          summary = \<lparr>avg_volatility = nanmean (map Some vs),
                      max_volatility = nanmax (map Some vs),
                      min_volatility = nanmin (map Some vs)\<rparr>\<rparr>)"

section \<open>Notions used to state the properties\<close>



text \<open>
  The tickers of the price table are unique, and so are the keys of the volatility
  dict of a risk report.
\<close>

definition unique_tickers :: "data_frame \<Rightarrow> (ticker \<times> fl) list option \<Rightarrow> bool" where
  "unique_tickers prices_df rv \<longleftrightarrow>
     distinct (map fst (columns prices_df)) \<and>
     (case rv of None \<Rightarrow> True | Some d \<Rightarrow> distinct (map fst d))"


text \<open>The universe that is ranked, and the number \<open>N\<close> of tickers that are chosen.\<close>

definition universe :: "data_frame \<Rightarrow> (ticker \<times> fl) list option \<Rightarrow> ticker list" where
  "universe prices_df rv = available prices_df (vol_source prices_df rv)"

definition chosen_count :: "int \<Rightarrow> data_frame \<Rightarrow> (ticker \<times> fl) list option \<Rightarrow> int" where
  "chosen_count top_n prices_df rv = min top_n (int (length (ranked prices_df rv)))"




section \<open>Rounding to cents\<close>










section \<open>The loop over the chosen tickers\<close>

lemma make_holding_total: "\<exists>h. make_holding b lp t w = Inr h"
  unfolding make_holding_def py_floordiv_def by (auto split: option.splits)


lemma allocate_result:
  "\<exists>hs. allocate b lp tws (acc, r) = Inr (acc @ hs, r - sum_list (map allocated_amt hs))
        \<and> list_all2 (\<lambda>h tw. make_holding b lp (fst tw) (snd tw) = Inr h) hs tws"
proof (induction tws arbitrary: acc r)
  case Nil
  then show ?case by simp
next
  case (Cons tw tws)
  obtain t w where tw: "tw = (t, w)" by (cases tw)
  obtain h where h: "make_holding b lp t w = Inr h" using make_holding_total by blast
  from Cons.IH[of "acc @ [h]" "r - allocated_amt h"] obtain hs where
    hs: "allocate b lp tws (acc @ [h], r - allocated_amt h)
           = Inr ((acc @ [h]) @ hs, r - allocated_amt h - sum_list (map allocated_amt hs))"
        "list_all2 (\<lambda>h tw. make_holding b lp (fst tw) (snd tw) = Inr h) hs tws"
    by blast
  show ?case
    by (rule exI[of _ "h # hs"]) (use tw h hs in \<open>simp add: algebra_simps\<close>)
qed


section \<open>No branch of generate_portfolio raises\<close>

lemma select_low_total: "\<exists>cw. select_low rk n = Inr cw"
  unfolding select_low_def py_truediv_def Let_def by auto

lemma select_total: "\<exists>chosen weights. select rl rk n = Inr (chosen, weights)"
  unfolding select_def using select_low_total[of rk n] by auto

lemma chosen_weights_total: "\<exists>tws. chosen_weights rl rk n = Inr tws"
  unfolding chosen_weights_def using select_total[of rl rk n]
  by (auto split: sum.splits prod.splits)

lemma last_prices_total: "\<not> empty df \<Longrightarrow> \<exists>lp. last_prices df = Inr lp"
  unfolding last_prices_def empty_def by auto

lemma generate_portfolio_main:
  assumes "\<not> empty df" "chosen_count top_n df rv \<noteq> 0"
  shows "\<exists>tws lp hs.
       chosen_weights rl (ranked df rv) (chosen_count top_n df rv) = Inr tws
     \<and> last_prices df = Inr lp
     \<and> list_all2 (\<lambda>h tw. make_holding b lp (fst tw) (snd tw) = Inr h) hs tws
     \<and> generate_portfolio top_n b rl (Some df) rv =
         Inr \<lparr>budget = py_round b 2,
              allocated = py_round (sum_list (map allocated_amt hs)) 2,
              remaining = py_round (b - sum_list (map allocated_amt hs)) 2,
              holdings = hs, error = None\<rparr>"
proof -
  let ?rk = "ranked df rv"
  let ?n = "chosen_count top_n df rv"
  obtain tws where tws: "chosen_weights rl ?rk ?n = Inr tws"
    using chosen_weights_total by blast
  obtain lp where lp: "last_prices df = Inr lp"
    using last_prices_total[OF assms(1)] by blast
  obtain hs where hs:
    "allocate b lp tws ([], b) = Inr ([] @ hs, b - sum_list (map allocated_amt hs))"
    "list_all2 (\<lambda>h tw. make_holding b lp (fst tw) (snd tw) = Inr h) hs tws"
    using allocate_result[of b lp tws "[]" b] by blast
  have "generate_portfolio top_n b rl (Some df) rv =
         Inr \<lparr>budget = py_round b 2,
              allocated = py_round (sum_list (map allocated_amt hs)) 2,
              remaining = py_round (b - sum_list (map allocated_amt hs)) 2,
              holdings = hs, error = None\<rparr>"
    unfolding generate_portfolio_def using assms tws lp hs(1)
    by (simp add: Let_def chosen_count_def)
  with tws lp hs(2) show ?thesis by blast
qed




section \<open>The ranked universe\<close>

lemma map_fst_reindex_fillna: "map fst (reindex_fillna vol labels) = labels"
  unfolding reindex_fillna_def by (simp add: comp_def)

lemma ranked_set: "set (map fst (ranked df rv)) = set (universe df rv)"
proof -
  have "set (map fst (ranked df rv))
      = fst ` set (reindex_fillna (vol_source df rv) (universe df rv))"
    unfolding ranked_def universe_def Let_def by simp
  also have "\<dots> = set (map fst (reindex_fillna (vol_source df rv) (universe df rv)))"
    by simp
  finally show ?thesis by (simp only: map_fst_reindex_fillna)
qed

lemma ranked_length: "length (ranked df rv) = length (universe df rv)"
  unfolding ranked_def universe_def Let_def reindex_fillna_def by simp


lemma distinct_map_sort_key:
  "distinct (map f (sort_key k xs)) \<longleftrightarrow> distinct (map f xs)"
  by (simp add: distinct_map)

lemma map_fst_annualized_vol: "map fst (annualized_vol df) = map fst (columns df)"
  unfolding annualized_vol_def Let_def by (simp add: comp_def)

lemma universe_distinct:
  assumes "unique_tickers df rv"
  shows "distinct (universe df rv)"
proof -
  have "distinct (map fst (vol_source df rv))"
    using assms unfolding unique_tickers_def vol_source_def Let_def
    by (auto simp: map_fst_annualized_vol split: option.splits)
  then show ?thesis
    using assms unfolding universe_def available_def sanitize_tickers_def Let_def unique_tickers_def
    by auto
qed

lemma ranked_distinct: "unique_tickers df rv \<Longrightarrow> distinct (map fst (ranked df rv))"
  unfolding ranked_def Let_def distinct_map_sort_key
  using universe_distinct[of df rv] by (simp add: map_fst_reindex_fillna universe_def)

lemma universe_subset: "set (universe df rv) \<subseteq> set (map fst (columns df))"
  unfolding universe_def available_def sanitize_tickers_def Let_def by auto

lemma universe_nonempty: "\<not> empty df \<Longrightarrow> universe df rv \<noteq> []"
  unfolding universe_def available_def empty_def Let_def by auto

section \<open>Selection and weights\<close>

lemma filter_key_unique:
  "distinct (map fst s) \<Longrightarrow> (t, v) \<in> set s \<Longrightarrow> filter (\<lambda>kv. fst kv = t) s = [(t, v)]"
proof (induction s)
  case Nil
  then show ?case by simp
next
  case (Cons a s)
  show ?case
  proof (cases "a = (t, v)")
    case True
    then have "t \<notin> fst ` set s" using Cons.prems(1) by auto
    then have "filter (\<lambda>kv. fst kv = t) s = []" by (auto simp: filter_empty_conv)
    then show ?thesis using True by simp
  next
    case False
    then have in_s: "(t, v) \<in> set s" using Cons.prems(2) by auto
    then have "fst a \<noteq> t" using Cons.prems(1) by (auto simp: image_iff)
    then show ?thesis using Cons.IH in_s Cons.prems(1) by simp
  qed
qed

lemma loc_keys:
  "distinct (map fst s) \<Longrightarrow> set xs \<subseteq> set s \<Longrightarrow> loc s (map fst xs) = map snd xs"
proof (induction xs)
  case Nil
  then show ?case by (simp add: loc_def)
next
  case (Cons x xs)
  obtain t v where x: "x = (t, v)" by (cases x)
  have "filter (\<lambda>kv. fst kv = t) s = [(t, v)]"
    using filter_key_unique[OF Cons.prems(1)] Cons.prems(2) x by auto
  moreover have "loc s (map fst xs) = map snd xs" using Cons by auto
  ultimately show ?case using x by (simp add: loc_def)
qed

lemma sum_list_replicate_real: "sum_list (replicate k (c::real)) = real k * c"
  by (induction k) (auto simp: algebra_simps)

lemma sum_list_map_divide: "sum_list (map (\<lambda>v. v / (s::real)) vs) = sum_list vs / s"
  by (induction vs) (auto simp: add_divide_distrib)

lemma normalize_id: "sum_list ws = 1 \<Longrightarrow> normalize ws = ws"
  unfolding normalize_def by simp



lemma epsilon_vol_pos: "0 < epsilon_vol v"
  unfolding epsilon_vol_def by simp

lemma high_vols_pos: "v \<in> set (high_vols rk chosen) \<Longrightarrow> 0 < v"
  unfolding high_vols_def by (auto simp: epsilon_vol_pos)

lemma sum_list_pos_real: "xs \<noteq> [] \<Longrightarrow> (\<And>x. x \<in> set xs \<Longrightarrow> 0 < (x::real)) \<Longrightarrow> 0 < sum_list xs"
  by (induction xs) (auto intro: add_pos_nonneg sum_list_nonneg less_imp_le)

lemma high_raw_sum: "high_vols rk chosen \<noteq> [] \<Longrightarrow> sum_list (high_raw rk chosen) = 1"
  unfolding high_raw_def Let_def sum_list_map_divide
  using sum_list_pos_real[of "high_vols rk chosen"] high_vols_pos[of _ rk chosen] by auto


lemma slice_to_nonneg: "0 \<le> k \<Longrightarrow> slice_to xs k = take (nat k) xs"
  unfolding slice_to_def by simp

lemma slice_last_pos: "0 < k \<Longrightarrow> slice_last xs k = drop (length xs - nat k) xs"
  unfolding slice_last_def by simp


lemma distinct_take_drop:
  assumes "distinct (map fst rk)" "a \<le> b"
  shows "set (map fst (take a rk)) \<inter> set (map fst (drop b rk)) = {}"
proof -
  have "set (drop b rk) \<subseteq> set (drop a rk)" using assms(2) by (rule set_drop_subset_set_drop)
  then have sub: "set (map fst (drop b rk)) \<subseteq> set (map fst (drop a rk))" by auto
  have "distinct (map fst (take a rk) @ map fst (drop a rk))"
    using assms(1) by (simp flip: map_append)
  then have "set (map fst (take a rk)) \<inter> set (map fst (drop a rk)) = {}" by simp
  with sub show ?thesis by blast
qed

lemma select_low_eq:
  assumes "0 \<le> n"
  shows "select_low rk n =
           Inr (map fst (take (nat n) rk),
                if n = 1 then [1] else 8 / 10 # replicate (nat (n - 1)) (2 / 10 / of_int (n - 1)))"
  unfolding select_low_def py_truediv_def Let_def slice_to_nonneg[OF assms] by simp

lemma low_weights_sum:
  assumes "1 \<le> n"
  shows "sum_list (if n = 1 then [1] else 8 / 10 # replicate (nat (n - 1)) (2 / 10 / of_int (n - 1))) = (1::real)"
proof (cases "n = 1")
  case True
  then show ?thesis by simp
next
  case False
  define d :: real where "d = of_int (n - 1)"
  have d: "real (nat (n - 1)) = d" "d \<noteq> 0"
    using assms False unfolding d_def by auto
  have "sum_list (8 / 10 # replicate (nat (n - 1)) (2 / 10 / d)) = 8 / 10 + d * (2 / 10 / d)"
    by (simp only: sum_list.Cons sum_list_replicate_real d(1))
  also have "\<dots> = 1" using d(2) by simp
  finally show ?thesis using False unfolding d_def by simp
qed

lemma chosen_weights_low:
  assumes "1 \<le> n" "n \<le> int (length rk)"
  shows "chosen_weights ''low'' rk n =
           Inr (zip (map fst (take (nat n) rk))
                    (if n = 1 then [1] else 8 / 10 # replicate (nat (n - 1)) (2 / 10 / of_int (n - 1))))"
proof -
  have "0 \<le> n" using assms by simp
  then show ?thesis
    unfolding chosen_weights_def select_def
    by (simp add: select_low_eq normalize_id[OF low_weights_sum[OF assms(1)]] del: replicate.simps)
qed

lemma high_vols_top:
  assumes "distinct (map fst rk)"
  shows "high_vols rk (map fst (drop k rk))
           = map (\<lambda>tv. epsilon_vol (snd tv)) (drop k rk)"
  unfolding high_vols_def loc_keys[OF assms set_drop_subset] by (simp add: comp_def)

lemma zip_replicate_same: "zip xs (replicate (length xs) y) = map (\<lambda>x. (x, y)) xs"
  by (induction xs) auto

lemma zip_map_same: "zip (map f xs) (map g xs) = map (\<lambda>x. (f x, g x)) xs"
  by (induction xs) auto

lemma chosen_weights_high:
  assumes "1 \<le> n" "n \<le> int (length rk)" "distinct (map fst rk)"
  shows "chosen_weights ''high'' rk n =
           Inr (map (\<lambda>tv. (fst tv, epsilon_vol (snd tv)
                       / sum_list (map (\<lambda>tv. epsilon_vol (snd tv))
                                       (drop (length rk - nat n) rk))))
                    (drop (length rk - nat n) rk))"
proof -
  let ?top = "drop (length rk - nat n) rk"
  let ?chosen = "map fst ?top"
  have sl: "slice_last rk n = ?top" using assms(1) by (simp add: slice_last_pos)
  have ne: "?top \<noteq> []" using assms(1,2) by auto
  have hv: "high_vols rk ?chosen = map (\<lambda>tv. epsilon_vol (snd tv)) ?top"
    by (rule high_vols_top[OF assms(3)])
  then have hne: "high_vols rk ?chosen \<noteq> []" using ne by simp
  have s1: "sum_list (high_raw rk ?chosen) = 1" by (rule high_raw_sum[OF hne])
  have sh: "select_high rk n = (?chosen, high_raw rk ?chosen)"
    unfolding select_high_def Let_def sl using s1 by simp
  have "chosen_weights ''high'' rk n = Inr (zip ?chosen (high_raw rk ?chosen))"
    unfolding chosen_weights_def select_def by (simp add: sh normalize_id[OF s1])
  also have "zip ?chosen (high_raw rk ?chosen) =
      map (\<lambda>tv. (fst tv, epsilon_vol (snd tv)
                       / sum_list (map (\<lambda>tv. epsilon_vol (snd tv)) ?top)))
          ?top"
    unfolding high_raw_def Let_def hv by (simp add: zip_map_same comp_def)
  finally show ?thesis .
qed

lemma select_moderate_eq:
  assumes "1 \<le> n" "n \<le> int (length rk)"
  shows "select_moderate rk n =
           (map fst (take (nat (n div 2)) rk) @ map fst (drop (length rk - nat (n - n div 2)) rk),
            replicate (nat n) (1 / real (nat n)))"
proof -
  let ?c = "map fst (take (nat (n div 2)) rk) @ map fst (drop (length rk - nat (n - n div 2)) rk)"
  have a: "0 \<le> n div 2" "0 < n - n div 2" using assms(1) by auto
  have len: "length ?c = nat n" using assms by auto
  have nz: "length ?c \<noteq> 0" using len assms(1) by linarith
  show ?thesis
    unfolding select_moderate_def Let_def slice_to_nonneg[OF a(1)] slice_last_pos[OF a(2)]
      if_P[OF a(2)] if_not_P[OF nz]
    by (simp only: len)
qed

lemma chosen_weights_moderate:
  assumes "1 \<le> n" "n \<le> int (length rk)" "rl \<noteq> ''low''" "rl \<noteq> ''high''"
  shows "chosen_weights rl rk n =
           Inr (map (\<lambda>t. (t, 1 / real (nat n)))
                  (map fst (take (nat (n div 2)) rk)
                   @ map fst (drop (length rk - nat (n - n div 2)) rk)))"
proof -
  let ?chosen = "map fst (take (nat (n div 2)) rk) @ map fst (drop (length rk - nat (n - n div 2)) rk)"
  have len: "length ?chosen = nat n" using assms(1,2) by auto
  have s1: "sum_list (replicate (nat n) (1 / real (nat n))) = 1"
    using assms(1) by (simp add: sum_list_replicate_real)
  have "chosen_weights rl rk n = Inr (zip ?chosen (replicate (nat n) (1 / real (nat n))))"
    unfolding chosen_weights_def select_def using assms(3,4)
    by (simp add: select_moderate_eq[OF assms(1,2)] normalize_id[OF s1])
  also have "zip ?chosen (replicate (nat n) (1 / real (nat n))) = map (\<lambda>t. (t, 1 / real (nat n))) ?chosen"
    unfolding len[symmetric] by (rule zip_replicate_same)
  finally show ?thesis .
qed

lemma make_holding_fields:
  assumes "make_holding b lp t w = Inr h"
  shows "ticker h = t" "weight h = py_round w 6" "price h = lookup_price lp t"
  using assms unfolding make_holding_def py_floordiv_def
  by (auto split: option.splits if_splits)



lemma holdings_map:
  assumes "list_all2 (\<lambda>h tw. make_holding b lp (fst tw) (snd tw) = Inr h) hs tws"
  shows "map ticker hs = map fst tws" "map weight hs = map (\<lambda>tw. py_round (snd tw) 6) tws"
  using assms by (induction rule: list_all2_induct) (auto simp: make_holding_fields)






section \<open>Shares under the budget\<close>



section \<open>No exception leaves generate_portfolio\<close>






section \<open>The weights are never all zero\<close>



lemma chosen_count_bounds:
  assumes "\<not> empty df" "0 \<le> top_n"
  shows "0 \<le> chosen_count top_n df rv"
    "chosen_count top_n df rv \<le> int (length (ranked df rv))"
    "chosen_count top_n df rv = min top_n (int (length (universe df rv)))"
    "1 \<le> top_n \<Longrightarrow> 1 \<le> chosen_count top_n df rv"
proof -
  have "universe df rv \<noteq> []" using assms(1) by (rule universe_nonempty)
  then have "1 \<le> int (length (ranked df rv))"
    unfolding ranked_length by (cases "universe df rv") auto
  then show "0 \<le> chosen_count top_n df rv"
    "chosen_count top_n df rv \<le> int (length (ranked df rv))"
    "chosen_count top_n df rv = min top_n (int (length (universe df rv)))"
    "1 \<le> top_n \<Longrightarrow> 1 \<le> chosen_count top_n df rv"
    using assms(2) unfolding chosen_count_def ranked_length by auto
qed

lemma holdings_of_portfolio:
  assumes "\<not> empty df" "chosen_count top_n df rv \<noteq> 0"
    and "generate_portfolio top_n b rl (Some df) rv = Inr p"
    and "chosen_weights rl (ranked df rv) (chosen_count top_n df rv) = Inr tws"
  shows "map ticker (holdings p) = map fst tws"
    "map weight (holdings p) = map (\<lambda>tw. py_round (snd tw) 6) tws"
proof -
  from generate_portfolio_main[OF assms(1,2), of rl b] obtain tws' lp hs where
    tws: "chosen_weights rl (ranked df rv) (chosen_count top_n df rv) = Inr tws'"
    and hs: "list_all2 (\<lambda>h tw. make_holding b lp (fst tw) (snd tw) = Inr h) hs tws'"
    and gp: "generate_portfolio top_n b rl (Some df) rv =
         Inr \<lparr>budget = py_round b 2,
              allocated = py_round (sum_list (map allocated_amt hs)) 2,
              remaining = py_round (b - sum_list (map allocated_amt hs)) 2,
              holdings = hs, error = None\<rparr>"
    by blast
  have "tws' = tws" using tws assms(4) by simp
  moreover have "holdings p = hs" using gp assms(3) by auto
  ultimately show "map ticker (holdings p) = map fst tws"
    "map weight (holdings p) = map (\<lambda>tw. py_round (snd tw) 6) tws"
    using holdings_map[OF hs] by simp_all
qed

lemma no_holdings:
  assumes "chosen_count top_n df rv = 0" "generate_portfolio top_n b rl (Some df) rv = Inr p"
  shows "holdings p = []"
  using assms unfolding generate_portfolio_def chosen_count_def
  by (auto simp: Let_def no_data_def split: if_splits)

lemma chosen_tickers:
  assumes "1 \<le> n" "n \<le> int (length rk)" "distinct (map fst rk)"
  shows "\<exists>tws. chosen_weights rl rk n = Inr tws \<and> length tws = nat n
           \<and> distinct (map fst tws) \<and> set (map fst tws) \<subseteq> set (map fst rk)"
proof -
  consider (low) "rl = ''low''" | (high) "rl = ''high''"
    | (moderate) "rl \<noteq> ''low''" "rl \<noteq> ''high''" by blast
  then show ?thesis
  proof cases
    case low
    let ?ws = "if n = 1 then [1] else 8 / 10 # replicate (nat (n - 1)) (2 / 10 / real_of_int (n - 1))"
    let ?tws = "zip (map fst (take (nat n) rk)) ?ws"
    have e: "chosen_weights rl rk n = Inr ?tws"
      unfolding low by (rule chosen_weights_low[OF assms(1,2)])
    have len: "length (map fst (take (nat n) rk)) = length ?ws" using assms(1,2) by auto
    have f: "map fst ?tws = map fst (take (nat n) rk)"
      using len by (rule map_fst_zip)
    have d: "distinct (map fst ?tws)"
      unfolding f using assms(3) by (simp add: take_map[symmetric])
    have s: "set (map fst ?tws) \<subseteq> set (map fst rk)"
      unfolding f by (auto dest: in_set_takeD)
    have "length ?tws = length (map fst ?tws)" by (simp only: length_map)
    also have "\<dots> = nat n" unfolding f using assms(1,2) by simp
    finally have l: "length ?tws = nat n" .
    show ?thesis by (intro exI[of _ ?tws] conjI) (fact e l d s)+
  next
    case high
    let ?top = "drop (length rk - nat n) rk"
    let ?tws = "map (\<lambda>tv. (fst tv, epsilon_vol (snd tv)
                       / sum_list (map (\<lambda>tv. epsilon_vol (snd tv)) ?top))) ?top"
    have e: "chosen_weights rl rk n = Inr ?tws"
      unfolding high by (rule chosen_weights_high[OF assms])
    have f: "map fst ?tws = map fst ?top" by (simp only: map_map comp_def fst_conv)
    have d: "distinct (map fst ?tws)"
      unfolding f using assms(3) by (simp add: drop_map[symmetric])
    have s: "set (map fst ?tws) \<subseteq> set (map fst rk)"
      unfolding f by (auto dest: in_set_dropD)
    have "length ?tws = length ?top" by (simp only: length_map)
    also have "\<dots> = nat n" using assms(1,2) by simp
    finally have l: "length ?tws = nat n" .
    show ?thesis by (intro exI[of _ ?tws] conjI) (fact e l d s)+
  next
    case moderate
    let ?a = "nat (n div 2)" and ?b = "length rk - nat (n - n div 2)"
    let ?c = "map fst (take ?a rk) @ map fst (drop ?b rk)"
    let ?tws = "map (\<lambda>t. (t, 1 / real (nat n))) ?c"
    have e: "chosen_weights rl rk n = Inr ?tws"
      by (rule chosen_weights_moderate[OF assms(1,2) moderate])
    have f: "map fst ?tws = ?c" by (simp only: map_map comp_def fst_conv map_ident)
    have ab: "?a \<le> ?b" using assms(1,2) by linarith
    have d: "distinct (map fst ?tws)"
      unfolding f using assms(3) distinct_take_drop[OF assms(3) ab]
      by (simp add: take_map[symmetric] drop_map[symmetric])
    have s: "set (map fst ?tws) \<subseteq> set (map fst rk)"
      unfolding f by (auto dest: in_set_takeD in_set_dropD)
    have "length ?tws = length ?c" by (simp only: length_map)
    also have "\<dots> = nat n" using assms(1,2) by auto
    finally have l: "length ?tws = nat n" .
    show ?thesis by (intro exI[of _ ?tws] conjI) (fact e l d s)+
  qed
qed

section \<open>How many holdings\<close>

text \<open>
  C10. For a non-empty price table with unique tickers and \<open>top_n \<ge> 0\<close>, whatever
  the risk level, the holdings are \<open>min(top_n, universe size)\<close> many, their tickers
  are pairwise distinct and are columns of the price table, and with \<open>top_n \<ge> 1\<close>
  there is at least one holding. The universe is the list of tickers that is ranked.
\<close>

theorem holdings_count:
  assumes "\<not> empty df" "unique_tickers df rv" "0 \<le> top_n"
    and "generate_portfolio top_n b rl (Some df) rv = Inr p"
  shows "int (length (holdings p)) = min top_n (int (length (universe df rv)))
       \<and> distinct (map ticker (holdings p))
       \<and> set (map ticker (holdings p)) \<subseteq> set (map fst (columns df))
       \<and> (1 \<le> top_n \<longrightarrow> holdings p \<noteq> [])"
proof (cases "chosen_count top_n df rv = 0")
  case True
  then have "holdings p = []" using assms(4) by (rule no_holdings)
  then show ?thesis
    using True chosen_count_bounds(3,4)[OF assms(1,3), of rv] by auto
next
  case False
  note cb = chosen_count_bounds[OF assms(1,3), of rv]
  have n1: "1 \<le> chosen_count top_n df rv" using False cb(1) by linarith
  from chosen_tickers[OF n1 cb(2) ranked_distinct[OF assms(2)], of rl] obtain tws where
    tws: "chosen_weights rl (ranked df rv) (chosen_count top_n df rv) = Inr tws"
    and l: "length tws = nat (chosen_count top_n df rv)"
    and d: "distinct (map fst tws)"
    and s: "set (map fst tws) \<subseteq> set (map fst (ranked df rv))"
    by blast
  have t: "map ticker (holdings p) = map fst tws"
    by (rule holdings_of_portfolio(1)[OF assms(1) False assms(4) tws])
  have "length (holdings p) = length tws" using t by (metis length_map)
  then have len: "int (length (holdings p)) = chosen_count top_n df rv" using l n1 by simp
  have sub: "set (map ticker (holdings p)) \<subseteq> set (map fst (columns df))"
    unfolding t using s ranked_set[of df rv] universe_subset[of df rv] by blast
  show ?thesis using len cb(3) d sub n1 unfolding t by auto
qed




section \<open>Selection by risk level\<close>





section \<open>The theorems on concrete tables\<close>

lemmas eval_defs =
  generate_portfolio_def empty_def ranked_def vol_source_def available_def
  sanitize_tickers_def reindex_fillna_def chosen_weights_def select_def select_low_def
  select_high_def select_moderate_def high_raw_def high_vols_def loc_def epsilon_vol_def
  slice_to_def slice_last_def normalize_def last_prices_def last_cell_def make_holding_def
  lookup_price_def py_truediv_def py_floordiv_def py_round_def round_half_even_def
  no_data_def chosen_count_def universe_def unique_tickers_def annualized_vol_def
  pct_change_def kept_rows_def present_def cells_def std_def Let_def




theorem holdings_count_witness:
  "\<not> empty \<lparr>index = [0], columns = [(''A'', [Some 10]), (''B'', [Some 20]), (''C'', [Some 30])]\<rparr>
   \<and> unique_tickers
         \<lparr>index = [0], columns = [(''A'', [Some 10]), (''B'', [Some 20]), (''C'', [Some 30])]\<rparr> None
   \<and> (0 :: int) \<le> 2
   \<and> generate_portfolio 2 100 ''high''
        (Some \<lparr>index = [0], columns = [(''A'', [Some 10]), (''B'', [Some 20]), (''C'', [Some 30])]\<rparr>)
        None
      = Inr \<lparr>budget = 100, allocated = 70, remaining = 30,
             holdings =
               [\<lparr>ticker = ''B'', weight = 1 / 2, price = Some 20, shares = 2, allocated_amt = 40\<rparr>,
                \<lparr>ticker = ''C'', weight = 1 / 2, price = Some 30, shares = 1, allocated_amt = 30\<rparr>],
             error = None\<rparr>
   \<and> int (length [\<lparr>ticker = ''B'', weight = 1 / 2, price = Some 20, shares = 2, allocated_amt = 40\<rparr>,
                  \<lparr>ticker = ''C'', weight = 1 / 2, price = Some 30, shares = 1, allocated_amt = 30\<rparr>])
       = min 2 (int (length [''A'', ''B'', ''C'']))"
proof -
  let ?df = "\<lparr>index = [0], columns = [(''A'', [Some 10]), (''B'', [Some 20]), (''C'', [Some 30])]\<rparr>"
  let ?p = "\<lparr>budget = 100, allocated = 70, remaining = 30,
             holdings =
               [\<lparr>ticker = ''B'', weight = 1 / 2, price = Some 20, shares = 2, allocated_amt = 40\<rparr>,
                \<lparr>ticker = ''C'', weight = 1 / 2, price = Some 30, shares = 1, allocated_amt = 30\<rparr>],
             error = None\<rparr>"
  have h1: "\<not> empty ?df" by (simp add: empty_def)
  have h2: "unique_tickers ?df None" by (simp add: unique_tickers_def)
  have h3: "(0 :: int) \<le> 2" by simp
  have u: "universe ?df None = [''A'', ''B'', ''C'']" by (simp add: eval_defs)
  have e: "generate_portfolio 2 100 ''high'' (Some ?df) None = Inr ?p"
    by (simp add: eval_defs eval_nat_numeral)
  from holdings_count[OF h1 h2 h3 e] have
    "int (length (holdings ?p)) = min 2 (int (length (universe ?df None)))"
    by blast
  then have "int (length [\<lparr>ticker = ''B'', weight = 1 / 2, price = Some 20, shares = 2, allocated_amt = 40\<rparr>,
                  \<lparr>ticker = ''C'', weight = 1 / 2, price = Some 30, shares = 1, allocated_amt = 30\<rparr>])
       = min 2 (int (length [''A'', ''B'', ''C'']))"
    unfolding u by simp
  with h1 h2 h3 e show ?thesis by blast
qed

section \<open>Risk ranks\<close>

lemma count_lt_eq_le: "length (filter (\<lambda>u. u < v) vs) + length (filter (\<lambda>u. u = v) vs) \<le> length vs"
  for v :: real
  by (induction vs) auto

lemma count_lt_mono:
  "v < v' \<Longrightarrow> length (filter (\<lambda>u. u < v) vs) + length (filter (\<lambda>u. u = v) vs)
              \<le> length (filter (\<lambda>u. u < v') vs)"
  for v :: real
  by (induction vs) auto

lemma rank_arith_mono: "a + b \<le> c \<Longrightarrow> 0 \<le> b \<Longrightarrow> 0 \<le> d \<Longrightarrow> a + (b + 1) / 2 \<le> c + (d + 1) / 2"
  for a b c d :: real
  by (simp add: add_divide_distrib)

lemma rank_arith_bounds:
  "a + b \<le> n \<Longrightarrow> 1 \<le> b \<Longrightarrow> 0 \<le> a \<Longrightarrow> 1 \<le> a + (b + 1) / 2 \<and> a + (b + 1) / 2 \<le> n"
  for a b n :: real
  by (simp add: add_divide_distrib)

lemma rank_mono: "v \<le> v' \<Longrightarrow> rank vs v \<le> rank vs v'"
proof (cases "v = v'")
  case True
  then show ?thesis by simp
next
  case False
  assume "v \<le> v'"
  with False have "v < v'" by simp
  from count_lt_mono[OF this, of vs]
  have "real (length (filter (\<lambda>u. u < v) vs)) + real (length (filter (\<lambda>u. u = v) vs))
          \<le> real (length (filter (\<lambda>u. u < v') vs))"
    by (metis of_nat_add of_nat_le_iff)
  then show ?thesis unfolding rank_def by (rule rank_arith_mono) simp_all
qed

lemma rank_bounds:
  assumes "v \<in> set vs"
  shows "1 \<le> rank vs v" "rank vs v \<le> real (length vs)"
proof -
  have "filter (\<lambda>u. u = v) vs \<noteq> []" using assms by (auto simp: filter_empty_conv)
  then have e1: "1 \<le> real (length (filter (\<lambda>u. u = v) vs))"
    by (cases "filter (\<lambda>u. u = v) vs") auto
  have a0: "0 \<le> real (length (filter (\<lambda>u. u < v) vs))" by simp
  have le: "real (length (filter (\<lambda>u. u < v) vs)) + real (length (filter (\<lambda>u. u = v) vs))
          \<le> real (length vs)"
    using count_lt_eq_le[of v vs] by (metis of_nat_add of_nat_le_iff)
  from rank_arith_bounds[OF le e1 a0]
  show "1 \<le> rank vs v" "rank vs v \<le> real (length vs)" unfolding rank_def by blast+
qed

lemma rank_card:
  "rank vs v = real (card {j. j < length vs \<and> vs ! j < v})
             + (real (card {j. j < length vs \<and> vs ! j = v}) + 1) / 2"
  unfolding rank_def length_filter_conv_card by simp

lemma volatility_assess: 
  "volatility (assess_universe df) = map (\<lambda>tv. (fst tv, fillna0 (snd tv))) (annualized_vol df)"
  by (simp add: assess_universe_def Let_def)

lemma risk_score_assess:
  "risk_score (assess_universe df) =
     map (\<lambda>tv. (fst tv, rank (map snd (volatility (assess_universe df))) (snd tv)
                          / real (length (volatility (assess_universe df)))))
         (volatility (assess_universe df))"
  by (simp add: assess_universe_def Let_def)


text \<open>
  C7. For a non-empty price table the risk scores have the tickers of the table
  as keys, one per volatility. The score of a ticker is its rank among the
  volatilities (NaN already replaced by 0) over the number of tickers, the rank
  being the number of strictly smaller volatilities plus the mean position among the
  equal ones. Every score lies in \<open>(0, 1]\<close>; a ticker that is not more volatile than
  another has no larger score, and equal volatilities have equal scores.
\<close>

theorem risk_score_is_rank:
  fixes vs ss :: "real list"
  assumes "\<not> empty df"
  defines "vs \<equiv> map snd (volatility (assess_universe df))"
    and "ss \<equiv> map snd (risk_score (assess_universe df))"
  shows "map fst (risk_score (assess_universe df)) = map fst (columns df)
       \<and> map fst (volatility (assess_universe df)) = map fst (columns df)
       \<and> length ss = length vs \<and> 0 < length vs
       \<and> (\<forall>i < length vs.
             ss ! i = rank vs (vs ! i) / real (length vs)
           \<and> rank vs (vs ! i) = real (card {j. j < length vs \<and> vs ! j < vs ! i})
                                + (real (card {j. j < length vs \<and> vs ! j = vs ! i}) + 1) / 2
           \<and> 0 < ss ! i \<and> ss ! i \<le> 1)
       \<and> (\<forall>i < length vs. \<forall>j < length vs.
             (vs ! i \<le> vs ! j \<longrightarrow> ss ! i \<le> ss ! j) \<and> (vs ! i = vs ! j \<longrightarrow> ss ! i = ss ! j))"
proof -
  let ?n = "real (length vs)"
  have keys: "map fst (volatility (assess_universe df)) = map fst (columns df)"
    unfolding volatility_assess by (simp add: comp_def map_fst_annualized_vol)
  have keys': "map fst (risk_score (assess_universe df)) = map fst (columns df)"
    unfolding risk_score_assess using keys by (simp add: comp_def)
  have lv: "length vs = length (columns df)"
    unfolding vs_def using keys by (metis length_map)
  have pos: "0 < length vs" using assms(1) unfolding lv empty_def by simp
  have ss: "ss = map (\<lambda>v. rank vs v / ?n) vs"
    unfolding ss_def vs_def risk_score_assess by (simp add: comp_def)
  have len: "length ss = length vs" unfolding ss by simp
  have nth: "ss ! i = rank vs (vs ! i) / ?n" if "i < length vs" for i
    unfolding ss using that by simp
  have bounds: "0 < ss ! i \<and> ss ! i \<le> 1" if i: "i < length vs" for i
  proof -
    have "vs ! i \<in> set vs" using i by simp
    from rank_bounds[OF this] pos show ?thesis unfolding nth[OF i] by simp
  qed
  have mono: "(vs ! i \<le> vs ! j \<longrightarrow> ss ! i \<le> ss ! j) \<and> (vs ! i = vs ! j \<longrightarrow> ss ! i = ss ! j)"
    if i: "i < length vs" and j: "j < length vs" for i j
    unfolding nth[OF i] nth[OF j] using rank_mono[of "vs ! i" "vs ! j" vs] pos
    by (auto simp: divide_right_mono)
  show ?thesis using keys keys' len pos nth bounds mono rank_card[of vs] by blast
qed

section \<open>Volatility and drawdown\<close>


















section \<open>The risk report of concrete tables\<close>

lemmas assess_defs =
  assess_universe_def annualized_vol_def pct_change_def kept_rows_def present_def cells_def
  std_def mean_def fillna0_def rank_def max_drawdown_def dropna_def cummax_def fdiv_def
  nanmin_def nanmax_def nanmean_def Let_def

theorem risk_score_is_rank_witness:
  "\<not> empty \<lparr>index = [0, 1, 2], columns = [(''X'', [Some 10, Some 10, Some 10]),
                                           (''Y'', [Some 5, Some 5, Some 5])]\<rparr>
   \<and> risk_score (assess_universe
         \<lparr>index = [0, 1, 2], columns = [(''X'', [Some 10, Some 10, Some 10]),
                                       (''Y'', [Some 5, Some 5, Some 5])]\<rparr>)
       = [(''X'', 3 / 4), (''Y'', 3 / 4)]
   \<and> (0 :: real) < 3 / 4 \<and> (3 / 4 :: real) \<le> 1"
proof -
  let ?df = "\<lparr>index = [0, 1, 2], columns = [(''X'', [Some 10, Some 10, Some 10]),
                                           (''Y'', [Some 5, Some 5, Some 5])]\<rparr>"
  have h: "\<not> empty ?df" by (simp add: empty_def)
  have v: "volatility (assess_universe ?df) = [(''X'', 0), (''Y'', 0)]"
    by (simp add: assess_defs)
  have s: "risk_score (assess_universe ?df) = [(''X'', 3 / 4), (''Y'', 3 / 4)]"
    unfolding risk_score_assess v by (simp add: rank_def)
  from risk_score_is_rank[OF h] have
    "\<forall>i < length (map snd (volatility (assess_universe ?df))).
        0 < map snd (risk_score (assess_universe ?df)) ! i
      \<and> map snd (risk_score (assess_universe ?df)) ! i \<le> 1"
    by blast
  then have "0 < map snd (risk_score (assess_universe ?df)) ! 0
      \<and> map snd (risk_score (assess_universe ?df)) ! 0 \<le> 1"
    unfolding v by simp
  then have "(0 :: real) < 3 / 4 \<and> (3 / 4 :: real) \<le> 1" unfolding s by simp
  with h s show ?thesis by blast
qed



end
